theory Spec2Isabelle
  imports Complex_Main "HOL-Library.Word"
begin

text \<open>
  The native test fixture \<^verbatim>\<open>tertest.cpp\<close>: five probe surfaces that a hooking tool is
  meant to intercept (\<^verbatim>\<open>test_simple_function\<close>, \<^verbatim>\<open>test_struct_by_pointer\<close>,
  \<^verbatim>\<open>test_pointer_args\<close>, \<^verbatim>\<open>TestClass::instance_method\<close>, \<^verbatim>\<open>TestClass::static_method\<close>), the
  global \<^verbatim>\<open>g_test_variable\<close>, and the driver \<^verbatim>\<open>run_all_tests\<close> that calls each surface
  once and logs the expected and the actual values.
\<close>

section \<open>Machine types\<close>

text \<open>
  The C++ type \<^verbatim>\<open>int\<close> has 32 bits on every Android ABI. It is embedded as a 32-bit
  word, and \<open>sint\<close> reads the word as the signed value the program sees. The C++
  standard leaves signed overflow undefined; the add and multiply instructions the
  functions compile to wrap around in two's complement, and so do \<open>+\<close> and \<open>*\<close> here.
\<close>

type_synonym cint = "32 word"

definition INT_MAX :: int where
  "INT_MAX = 2147483647"

definition INT_MIN :: int where
  "INT_MIN = - 2147483648"

text \<open>
  The type \<^verbatim>\<open>double\<close> stays abstract: it is a type parameter \<open>'d\<close>, and the two things
  the program does with doubles come with it: the multiplication of two doubles, and the
  conversion of a decimal literal of the source text to a double.
\<close>

record 'd fpu =
  fmul :: "'d \<Rightarrow> 'd \<Rightarrow> 'd"
  flit :: "rat \<Rightarrow> 'd"

text \<open>Exact rational arithmetic, an instance on which concrete runs are evaluated.\<close>

definition exact_fpu :: "rat fpu" where
  "exact_fpu = \<lparr>fmul = (\<lambda>x y. x * y), flit = (\<lambda>q. q)\<rparr>"

section \<open>Pointers and memory\<close>

text \<open>
  A pointer is \<open>None\<close> (the null pointer) or \<open>Some a\<close>, the address \<open>a\<close> of an object.
  A memory maps the addresses of the objects of one type to their values. Reading or
  writing through the null pointer is a fault of the process.
\<close>

type_synonym 'a ptr = "'a option"

datatype fault = SIGSEGV

definition store :: "'a ptr \<Rightarrow> 'v \<Rightarrow> ('a \<Rightarrow> 'v) \<Rightarrow> fault + ('a \<Rightarrow> 'v)" where
  "store p v mem = (case p of None \<Rightarrow> Inl SIGSEGV | Some a \<Rightarrow> Inr (mem(a := v)))"

text \<open>A compound assignment through a pointer, \<^verbatim>\<open>p->f op= e\<close>: read, modify, write.\<close>

definition modify :: "'a ptr \<Rightarrow> ('v \<Rightarrow> 'v) \<Rightarrow> ('a \<Rightarrow> 'v) \<Rightarrow> fault + ('a \<Rightarrow> 'v)" where
  "modify p f mem = (case p of None \<Rightarrow> Inl SIGSEGV | Some a \<Rightarrow> Inr (mem(a := f (mem a))))"

text \<open>
  A local variable whose address is taken: the one object of a memory of the caller's
  frame, at the only address \<open>()\<close> of that memory.
\<close>

definition local_var :: "'v \<Rightarrow> (unit \<Rightarrow> 'v)" where
  "local_var v u = v"

section \<open>The probe surfaces\<close>

text \<open>The initialiser of the global: \<^verbatim>\<open>int g_test_variable = 100;\<close>\<close>

definition g_test_variable_init :: cint where
  "g_test_variable_init = 100"

definition test_simple_function :: "cint \<Rightarrow> cint \<Rightarrow> cint" where
  "test_simple_function a b = a + b"

text \<open>The fields \<^verbatim>\<open>id\<close> and \<^verbatim>\<open>value\<close> of \<^verbatim>\<open>TestData\<close> are \<open>id'\<close> and \<open>value'\<close>.\<close>

record 'd TestData =
  id' :: cint
  value' :: 'd

text \<open>
  The memory holds the \<^verbatim>\<open>TestData\<close> objects that \<^verbatim>\<open>data\<close> can point to; the result is
  the memory after the call (the function returns \<^verbatim>\<open>void\<close>), or the fault.
\<close>

definition test_struct_by_pointer ::
  "'d fpu \<Rightarrow> 'a ptr \<Rightarrow> ('a \<Rightarrow> 'd TestData) \<Rightarrow> fault + ('a \<Rightarrow> 'd TestData)" where
  "test_struct_by_pointer fp data mem =
     (if data \<noteq> None then
        (case modify data (\<lambda>d. d\<lparr>id' := id' d + 1\<rparr>) mem of
           Inl f \<Rightarrow> Inl f
         | Inr mem1 \<Rightarrow> modify data (\<lambda>d. d\<lparr>value' := fmul fp (value' d) (flit fp 2.0)\<rparr>) mem1)
      else Inr mem)"

text \<open>
  The function returns the pointer \<^verbatim>\<open>input_str\<close> without looking at what it points to,
  so its type is left open. The memory holds the \<^verbatim>\<open>int\<close> objects that \<^verbatim>\<open>out_val\<close> can
  point to.
\<close>

definition test_pointer_args ::
  "'s \<Rightarrow> 'a ptr \<Rightarrow> ('a \<Rightarrow> cint) \<Rightarrow> fault + ('s \<times> ('a \<Rightarrow> cint))" where
  "test_pointer_args input_str out_val mem =
     (if out_val \<noteq> None then
        (case store out_val 500 mem of
           Inl f \<Rightarrow> Inl f
         | Inr mem1 \<Rightarrow> Inr (input_str, mem1))
      else Inr (input_str, mem))"

record TestClass =
  m_value :: cint

definition instance_method :: "TestClass \<Rightarrow> cint \<Rightarrow> cint" where
  "instance_method this multiplier = m_value this * multiplier"

definition static_method :: string where
  "static_method = ''Original static string''"

section \<open>The log sink and the process\<close>

text \<open>
  \<^verbatim>\<open>LOG_I(fmt, ...)\<close> is \<^verbatim>\<open>__android_log_print(ANDROID_LOG_INFO, LOG_TAG, fmt, ...)\<close>. The
  platform formats the line; an entry of the log sink keeps what the program passed:
  the priority, the tag, the format string and the arguments.
\<close>

text \<open>The priorities of the platform's log, of which the program uses one.\<close>

datatype android_LogPriority =
    ANDROID_LOG_UNKNOWN | ANDROID_LOG_DEFAULT | ANDROID_LOG_VERBOSE | ANDROID_LOG_DEBUG
  | ANDROID_LOG_INFO | ANDROID_LOG_WARN | ANDROID_LOG_ERROR | ANDROID_LOG_FATAL
  | ANDROID_LOG_SILENT

datatype 'd log_arg = Int_arg cint | Double_arg 'd | Str_arg string

datatype surface =
    Test_simple_function | Test_struct_by_pointer | Test_pointer_args
  | Instance_method | Static_method

text \<open>
  What an observer of the running driver sees, in order: the lines that reach the log
  sink, and the calls of the probe surfaces, each recorded at its call site.
\<close>

datatype 'd event =
    Log_print android_LogPriority string string "'d log_arg list"
  | Invoke surface

text \<open>
  The objects of type \<^verbatim>\<open>int\<close> of the process that a caller can pass by address: the
  global \<^verbatim>\<open>g_test_variable\<close>, and the callers' own. The \<^verbatim>\<open>TestData\<close> objects are the
  callers' own.
\<close>

datatype int_obj = g_test_variable | caller_int nat

record 'd process =
  ints :: "int_obj \<Rightarrow> cint"
  datas :: "nat \<Rightarrow> 'd TestData"
  events :: "'d event list"

definition LOG_TAG :: string where
  "LOG_TAG = ''NativeTestLib''"

definition LOG_I :: "string \<Rightarrow> 'd log_arg list \<Rightarrow> 'd process \<Rightarrow> 'd process" where
  "LOG_I fmt args s = s\<lparr>events := events s @ [Log_print ANDROID_LOG_INFO LOG_TAG fmt args]\<rparr>"

definition invoke :: "surface \<Rightarrow> 'd process \<Rightarrow> 'd process" where
  "invoke f s = s\<lparr>events := events s @ [Invoke f]\<rparr>"

definition invocations :: "'d process \<Rightarrow> surface list" where
  "invocations s = [f. Invoke f \<leftarrow> events s]"

text \<open>The constructor of \<^verbatim>\<open>TestClass\<close> sets the field and writes one log line.\<close>

definition TestClass_ctor :: "cint \<Rightarrow> 'd process \<Rightarrow> TestClass \<times> 'd process" where
  "TestClass_ctor initial s =
     (let this = \<lparr>m_value = initial\<rparr>
      in (this, LOG_I ''TestClass instance created with m_value = %d'' [Int_arg (m_value this)] s))"

section \<open>The driver routine\<close>

text \<open>
  The locals \<^verbatim>\<open>data\<close> and \<^verbatim>\<open>out_val\<close> live in the driver's own frame, and
  \<^verbatim>\<open>&data\<close>, \<^verbatim>\<open>&out_val\<close> are \<open>Some ()\<close>. A fault in a call ends the driver.
\<close>

definition run_all_tests :: "'d fpu \<Rightarrow> 'd process \<Rightarrow> fault + 'd process" where
  \<open>run_all_tests fp s0 =
    (let s = LOG_I ''--- Running Native Tests ---'' [] s0;
         s = LOG_I ''[Test 1] Calling test_simple_function(5, 7). Expected result: 12'' [] s;
         s = invoke Test_simple_function s;
         simple_result = test_simple_function 5 7;
         s = LOG_I ''[Test 1] Actual result: %d. (Hook should change this to 35)''
               [Int_arg simple_result] s;
         data = local_var \<lparr>id' = 10, value' = flit fp 42.5\<rparr>;
         s = LOG_I ''[Test 2] Calling test_struct_by_pointer. Initial values: id=10, value=42.5'' [] s;
         s = LOG_I ''[Test 2] Expected values after call: id=11, value=85.0'' [] s;
         s = invoke Test_struct_by_pointer s
     in case test_struct_by_pointer fp (Some ()) data of
          Inl f \<Rightarrow> Inl f
        | Inr data \<Rightarrow>
    (let s = LOG_I ''[Test 2] Actual values after call: id=%d, value=%f. (Hook should change these to -20, -3.14)''
               [Int_arg (id' (data ())), Double_arg (value' (data ()))] s;
         out_val = local_var 0;
         s = LOG_I ''[Test 3] Calling test_pointer_args. Expected out_val: 500'' [] s;
         s = invoke Test_pointer_args s
     in case test_pointer_args ''Hello from C++'' (Some ()) out_val of
          Inl f \<Rightarrow> Inl f
        | Inr (r, out_val) \<Rightarrow>
    (let s = LOG_I ''[Test 3] Actual out_val: %d. (Hook should change this to 999)''
               [Int_arg (out_val ())] s;
         (instance, s) = TestClass_ctor 42 s;
         s = LOG_I ''[Test 4] Calling instance.instance_method(10). Expected result: 420'' [] s;
         s = invoke Instance_method s;
         instance_result = instance_method instance 10;
         s = LOG_I ''[Test 4] Actual result: %d. (Hook should change this to 1337)''
               [Int_arg instance_result] s;
         s = LOG_I (''[Test 5] Calling TestClass::static_method(). Expected result: \'Original static string''
                 @ [CHR 0x27]) [] s;
         s = invoke Static_method s;
         static_result = static_method;
         s = LOG_I ''[Test 5] Actual result: \'%s\'. (Hook should change this)''
               [Str_arg static_result] s;
         s = LOG_I ''--- Native Tests Finished ---'' [] s
     in Inr s)))\<close>

section \<open>Calls from outside\<close>

text \<open>
  The surfaces are exported: any code of the host process can call them, in any order
  and with any arguments of their types. A \<^verbatim>\<open>const char*\<close> argument is \<open>None\<close> (null) or
  \<open>Some\<close> string; the pointers to \<^verbatim>\<open>int\<close> and \<^verbatim>\<open>TestData\<close> objects point into the memories
  of the process.
\<close>

datatype call =
    Call_test_simple_function cint cint
  | Call_test_struct_by_pointer "nat ptr"
  | Call_test_pointer_args "string option" "int_obj ptr"
  | Call_instance_method TestClass cint
  | Call_static_method
  | Call_run_all_tests

datatype ret = Ret_void | Ret_int cint | Ret_str "string option"

definition exec_call :: "'d fpu \<Rightarrow> call \<Rightarrow> 'd process \<Rightarrow> fault + (ret \<times> 'd process)" where
  "exec_call fp c s =
     (case c of
        Call_test_simple_function a b \<Rightarrow> Inr (Ret_int (test_simple_function a b), s)
      | Call_test_struct_by_pointer data \<Rightarrow>
          (case test_struct_by_pointer fp data (datas s) of
             Inl f \<Rightarrow> Inl f
           | Inr mem \<Rightarrow> Inr (Ret_void, s\<lparr>datas := mem\<rparr>))
      | Call_test_pointer_args input_str out_val \<Rightarrow>
          (case test_pointer_args input_str out_val (ints s) of
             Inl f \<Rightarrow> Inl f
           | Inr (r, mem) \<Rightarrow> Inr (Ret_str r, s\<lparr>ints := mem\<rparr>))
      | Call_instance_method this multiplier \<Rightarrow>
          Inr (Ret_int (instance_method this multiplier), s)
      | Call_static_method \<Rightarrow> Inr (Ret_str (Some static_method), s)
      | Call_run_all_tests \<Rightarrow>
          (case run_all_tests fp s of
             Inl f \<Rightarrow> Inl f
           | Inr s' \<Rightarrow> Inr (Ret_void, s')))"

fun exec_calls :: "'d fpu \<Rightarrow> call list \<Rightarrow> 'd process \<Rightarrow> fault + (ret list \<times> 'd process)" where
  "exec_calls fp [] s = Inr ([], s)"
| "exec_calls fp (c # cs) s =
     (case exec_call fp c s of
        Inl f \<Rightarrow> Inl f
      | Inr (r, s') \<Rightarrow>
          (case exec_calls fp cs s' of
             Inl f \<Rightarrow> Inl f
           | Inr (rs, s'') \<Rightarrow> Inr (r # rs, s'')))"

text \<open>The process when the library has just been loaded: the global holds its initialiser.\<close>

definition process_at_load :: "'d fpu \<Rightarrow> 'd process" where
  "process_at_load fp =
     \<lparr>ints = (\<lambda>x. 0)(g_test_variable := g_test_variable_init),
      datas = (\<lambda>n. \<lparr>id' = 0, value' = flit fp 0\<rparr>),
      events = []\<rparr>"

text \<open>A call that passes the address of the global as its output parameter.\<close>

fun passes_g_test_variable :: "call \<Rightarrow> bool" where
  "passes_g_test_variable (Call_test_pointer_args input_str (Some g_test_variable)) = True"
| "passes_g_test_variable c = False"

text \<open>The value of the global after a sequence of calls, when they all return.\<close>

definition g_test_variable_after :: "'d fpu \<Rightarrow> call list \<Rightarrow> 'd process \<Rightarrow> cint option" where
  "g_test_variable_after fp cs s =
     (case exec_calls fp cs s of
        Inl f \<Rightarrow> None
      | Inr (rs, s') \<Rightarrow> Some (ints s' g_test_variable))"

section \<open>Signed 32-bit arithmetic\<close>

lemma sint_in_range: "INT_MIN \<le> sint (w :: cint) \<and> sint w \<le> INT_MAX"
  using sint_ge [of w] sint_lt [of w] by (simp add: INT_MIN_def INT_MAX_def)

lemma sint_add_exact:
  fixes a b :: cint
  assumes "INT_MIN \<le> sint a + sint b" and "sint a + sint b \<le> INT_MAX"
  shows "sint (a + b) = sint a + sint b"
  using assms
  by (simp add: sint_word_ariths signed_take_bit_int_eq_self INT_MIN_def INT_MAX_def)

lemma sint_mult_exact:
  fixes a b :: cint
  assumes "INT_MIN \<le> sint a * sint b" and "sint a * sint b \<le> INT_MAX"
  shows "sint (a * b) = sint a * sint b"
  using assms
  by (simp add: sint_word_ariths signed_take_bit_int_eq_self INT_MIN_def INT_MAX_def)

lemma signed_wrap: "signed_take_bit 31 (k :: int) = (k + 2 ^ 31) mod 2 ^ 32 - 2 ^ 31"
  by (simp add: signed_take_bit_eq_take_bit_shift take_bit_eq_mod)

section \<open>The guarded writes\<close>

lemma test_struct_by_pointer_Some:
  "test_struct_by_pointer fp (Some a) mem =
     Inr (mem(a := (mem a)\<lparr>id' := id' (mem a) + 1,
                            value' := fmul fp (value' (mem a)) (flit fp 2.0)\<rparr>))"
  by (simp add: test_struct_by_pointer_def modify_def)

lemma test_struct_by_pointer_None: "test_struct_by_pointer fp None mem = Inr mem"
  by (simp add: test_struct_by_pointer_def)

lemma test_pointer_args_Some: "test_pointer_args s (Some a) mem = Inr (s, mem(a := 500))"
  by (simp add: test_pointer_args_def store_def)

lemma test_pointer_args_None: "test_pointer_args s None mem = Inr (s, mem)"
  by (simp add: test_pointer_args_def)

lemma run_all_tests_returns:
  "\<exists>evs. \<forall>s. run_all_tests fp s = Inr (s\<lparr>events := events s @ evs\<rparr>)"
proof -
  have "\<exists>evs. \<forall>s :: 'a process.
      s\<lparr>events := events s @ xs\<rparr> = s\<lparr>events := events s @ evs\<rparr>" for xs
    by (rule exI [of _ xs]) simp
  then show ?thesis
    by (simp add: run_all_tests_def LOG_I_def invoke_def test_struct_by_pointer_Some
        test_pointer_args_Some TestClass_ctor_def local_var_def Let_def)
qed

section \<open>The arithmetic surface\<close>

text \<open>
  C2, as amended. For all 32-bit integers \<open>a\<close> and \<open>b\<close> whose sum lies in the range of
  \<^verbatim>\<open>int\<close>, from \<open>INT_MIN\<close> to \<open>INT_MAX\<close>, \<open>test_simple_function\<close> returns their sum
  \<open>a + b\<close>. It has no side effects: a call returns that value and leaves the process
  as it was.
\<close>

theorem test_simple_function_sum_in_range:
  "INT_MIN \<le> sint a + sint b \<Longrightarrow> sint a + sint b \<le> INT_MAX \<Longrightarrow>
   sint (test_simple_function a b) = sint a + sint b
   \<and> exec_call fp (Call_test_simple_function a b) s
       = Inr (Ret_int (test_simple_function a b), s)"
  by (simp add: test_simple_function_def sint_add_exact exec_call_def)

text \<open>The driver's call: 5 and 7 give 12.\<close>

theorem test_simple_function_sum_in_range_witness:
  "INT_MIN \<le> sint (5 :: cint) + sint (7 :: cint)
   \<and> sint (5 :: cint) + sint (7 :: cint) \<le> INT_MAX
   \<and> sint (test_simple_function 5 7) = 12
   \<and> exec_call exact_fpu (Call_test_simple_function 5 7) (process_at_load exact_fpu)
       = Inr (Ret_int 12, process_at_load exact_fpu)"
proof -
  have lo: "INT_MIN \<le> sint (5 :: cint) + sint (7 :: cint)"
    by (simp add: INT_MIN_def)
  have hi: "sint (5 :: cint) + sint (7 :: cint) \<le> INT_MAX"
    by (simp add: INT_MAX_def)
  have twelve: "test_simple_function 5 7 = 12"
    by (simp add: test_simple_function_def)
  show ?thesis
    using lo hi
      test_simple_function_sum_in_range [OF lo hi, of exact_fpu "process_at_load exact_fpu"]
    by (simp add: twelve)
qed

text \<open>
  C2 as stated, for all integers, fails where the sum leaves the range of \<^verbatim>\<open>int\<close>:
  \<open>INT_MAX\<close> and 1 give \<open>INT_MIN\<close>, not 2147483648.
\<close>

theorem test_simple_function_overflow_counterexample:
  "sint (test_simple_function 2147483647 1) = - 2147483648
   \<and> sint (test_simple_function 2147483647 1) \<noteq> sint (2147483647 :: cint) + sint (1 :: cint)"
  by (simp add: test_simple_function_def)

section \<open>The echo surface\<close>

text \<open>
  C4. For every input string \<open>s\<close> (a value of any type: the function never looks at it),
  every memory and every output parameter, \<open>test_pointer_args\<close> returns \<open>s\<close> itself. When
  the output parameter is present, the object it points to holds 500 after the call and
  no other object has changed; when it is null, the memory is unchanged.
\<close>

theorem test_pointer_args_echo:
  "(\<exists>mem'. test_pointer_args s (Some a) mem = Inr (s, mem')
            \<and> mem' a = 500 \<and> mem' = mem(a := 500))
   \<and> test_pointer_args s None mem = Inr (s, mem)"
  by (simp add: test_pointer_args_Some test_pointer_args_None)

section \<open>The methods of the class\<close>

text \<open>
  C6. The static method has no argument and is the constant string
  \<^verbatim>\<open>Original static string\<close>; a call returns a pointer to it and leaves the process as
  it was.
\<close>

theorem static_method_constant:
  "static_method = ''Original static string''
   \<and> exec_call fp Call_static_method s = Inr (Ret_str (Some ''Original static string''), s)"
  by (simp add: static_method_def exec_call_def)

text \<open>
  C5, as amended. An object constructed with the stored field \<open>f\<close> returns \<open>f * m\<close> from
  its instance method for every 32-bit multiplier \<open>m\<close> for which the product lies in the
  range of \<^verbatim>\<open>int\<close>; an object constructed with 42 returns 420 for the multiplier 10.
\<close>

theorem instance_method_product_in_range:
  "(INT_MIN \<le> sint f * sint m \<and> sint f * sint m \<le> INT_MAX \<longrightarrow>
      sint (instance_method (fst (TestClass_ctor f s)) m) = sint f * sint m)
   \<and> instance_method (fst (TestClass_ctor 42 s)) 10 = 420"
  by (simp add: instance_method_def TestClass_ctor_def sint_mult_exact)

text \<open>The stored field 42 and the multiplier \<open>- 3\<close> give \<open>- 126\<close>.\<close>

theorem instance_method_product_in_range_witness:
  "INT_MIN \<le> sint (42 :: cint) * sint (- 3 :: cint)
   \<and> sint (42 :: cint) * sint (- 3 :: cint) \<le> INT_MAX
   \<and> sint (instance_method (fst (TestClass_ctor 42 (process_at_load exact_fpu))) (- 3)) = - 126"
proof -
  have range: "INT_MIN \<le> sint (42 :: cint) * sint (- 3 :: cint)
      \<and> sint (42 :: cint) * sint (- 3 :: cint) \<le> INT_MAX"
    by (simp add: INT_MIN_def INT_MAX_def)
  have "sint (42 :: cint) * sint (- 3 :: cint) = - 126"
    by simp
  with range show ?thesis
    using instance_method_product_in_range [of 42 "- 3" "process_at_load exact_fpu"]
    by simp
qed

text \<open>
  C5 as stated, for every integer \<open>m\<close>, fails where the product leaves the range of
  \<^verbatim>\<open>int\<close>: the stored field 42 and the multiplier 51130564 give \<open>- 2147483608\<close>, not
  2147483688.
\<close>

theorem instance_method_overflow_counterexample:
  "sint (instance_method (fst (TestClass_ctor 42 (process_at_load exact_fpu))) 51130564)
     = - 2147483608
   \<and> sint (instance_method (fst (TestClass_ctor 42 (process_at_load exact_fpu))) 51130564)
     \<noteq> sint (42 :: cint) * sint (51130564 :: cint)"
  by (simp add: instance_method_def TestClass_ctor_def)

section \<open>Fixed-width arithmetic\<close>

text \<open>
  C10. The arithmetic surface and the instance method compute on 32-bit machine integers.
  For every pair of inputs, \<open>test_simple_function\<close> returns the sum reduced modulo \<open>2 ^ 32\<close>:
  read unsigned, the result is the sum modulo \<open>2 ^ 32\<close>, and read signed, it is the sum
  wrapped into the range from \<open>- 2 ^ 31\<close> to \<open>2 ^ 31 - 1\<close>. The same holds of
  \<open>instance_method\<close> and the product of the stored field and the multiplier. When the
  sum or the product of the signed values lies outside the range of \<^verbatim>\<open>int\<close>, the result
  differs from it.
\<close>

theorem int_arithmetic_wraps:
  "uint (test_simple_function a b) = (uint a + uint b) mod 2 ^ 32
   \<and> sint (test_simple_function a b) = (sint a + sint b + 2 ^ 31) mod 2 ^ 32 - 2 ^ 31
   \<and> uint (instance_method this m) = (uint (m_value this) * uint m) mod 2 ^ 32
   \<and> sint (instance_method this m)
       = (sint (m_value this) * sint m + 2 ^ 31) mod 2 ^ 32 - 2 ^ 31
   \<and> (sint a + sint b < INT_MIN \<or> INT_MAX < sint a + sint b \<longrightarrow>
        sint (test_simple_function a b) \<noteq> sint a + sint b)
   \<and> (sint (m_value this) * sint m < INT_MIN \<or> INT_MAX < sint (m_value this) * sint m \<longrightarrow>
        sint (instance_method this m) \<noteq> sint (m_value this) * sint m)"
proof -
  have add_u: "uint (a + b) = (uint a + uint b) mod 2 ^ 32"
    by (simp add: uint_word_ariths)
  have add_s: "sint (a + b) = (sint a + sint b + 2 ^ 31) mod 2 ^ 32 - 2 ^ 31"
    by (simp add: sint_word_ariths signed_wrap)
  have mult_u: "uint (m_value this * m) = (uint (m_value this) * uint m) mod 2 ^ 32"
    by (simp add: uint_word_ariths)
  have mult_s: "sint (m_value this * m)
      = (sint (m_value this) * sint m + 2 ^ 31) mod 2 ^ 32 - 2 ^ 31"
    by (simp add: sint_word_ariths signed_wrap)
  have add_over: "sint (a + b) \<noteq> sint a + sint b"
    if "sint a + sint b < INT_MIN \<or> INT_MAX < sint a + sint b"
    using that sint_in_range [of "a + b"] by auto
  have mult_over: "sint (m_value this * m) \<noteq> sint (m_value this) * sint m"
    if "sint (m_value this) * sint m < INT_MIN \<or> INT_MAX < sint (m_value this) * sint m"
    using that sint_in_range [of "m_value this * m"] by auto
  show ?thesis
    unfolding test_simple_function_def instance_method_def
    using add_u add_s mult_u mult_s add_over mult_over by blast
qed

text \<open>
  Two overflowing calls: \<open>INT_MAX + 1\<close> is \<open>INT_MIN\<close>, and 65536 times 65536 is 0.
\<close>

theorem int_arithmetic_wraps_witness:
  "INT_MAX < sint (2147483647 :: cint) + sint (1 :: cint)
   \<and> sint (test_simple_function 2147483647 1) = INT_MIN
   \<and> sint (test_simple_function 2147483647 1) \<noteq> sint (2147483647 :: cint) + sint (1 :: cint)
   \<and> INT_MAX < sint (m_value \<lparr>m_value = 65536\<rparr>) * sint (65536 :: cint)
   \<and> sint (instance_method \<lparr>m_value = 65536\<rparr> 65536) = 0
   \<and> sint (instance_method \<lparr>m_value = 65536\<rparr> 65536)
       \<noteq> sint (m_value \<lparr>m_value = 65536\<rparr>) * sint (65536 :: cint)"
proof -
  have over_add: "INT_MAX < sint (2147483647 :: cint) + sint (1 :: cint)"
    by (simp add: INT_MAX_def)
  have over_mult: "INT_MAX < sint (m_value \<lparr>m_value = 65536\<rparr>) * sint (65536 :: cint)"
    by (simp add: INT_MAX_def)
  have vals: "sint (test_simple_function 2147483647 1) = INT_MIN"
    "sint (instance_method \<lparr>m_value = 65536\<rparr> 65536) = 0"
    by (simp_all add: test_simple_function_def instance_method_def INT_MIN_def)
  show ?thesis
    using over_add over_mult vals
      int_arithmetic_wraps [of 2147483647 1 "\<lparr>m_value = 65536\<rparr>" 65536]
    by blast
qed

section \<open>The record-mutation surface\<close>

text \<open>
  C3, as amended. The function returns no value: its result is the memory after the
  call. For every memory and every present reference to a record with identifier \<open>i\<close>
  below \<open>INT_MAX\<close> and measurement \<open>v\<close>, the call returns, the record then has the
  identifier \<open>i + 1\<close> and the measurement \<open>v * 2.0\<close> (the product of the doubles), and
  no other record has changed. With the null reference the call returns and the memory
  is unchanged.
\<close>

theorem test_struct_by_pointer_effect:
  "(sint (id' (mem a)) < INT_MAX \<longrightarrow>
      (\<exists>mem'. test_struct_by_pointer fp (Some a) mem = Inr mem'
         \<and> sint (id' (mem' a)) = sint (id' (mem a)) + 1
         \<and> value' (mem' a) = fmul fp (value' (mem a)) (flit fp 2.0)
         \<and> (\<forall>b. b \<noteq> a \<longrightarrow> mem' b = mem b)))
   \<and> test_struct_by_pointer fp None mem = Inr mem"
  using sint_in_range [of "id' (mem a)"]
  by (simp add: test_struct_by_pointer_Some test_struct_by_pointer_None sint_add_exact
      INT_MAX_def INT_MIN_def)

text \<open>The driver's record: the identifier 10 and the measurement 42.5 become 11 and 85.\<close>

theorem test_struct_by_pointer_effect_witness:
  "sint (id' (local_var \<lparr>id' = 10 :: cint, value' = 42.5 :: rat\<rparr> ())) < INT_MAX
   \<and> test_struct_by_pointer exact_fpu (Some ()) (local_var \<lparr>id' = 10, value' = 42.5\<rparr>)
       = Inr (local_var \<lparr>id' = 11, value' = 85\<rparr>)"
proof -
  have below: "sint (id' (local_var \<lparr>id' = 10 :: cint, value' = 42.5 :: rat\<rparr> ())) < INT_MAX"
    by (simp add: local_var_def INT_MAX_def)
  from test_struct_by_pointer_effect
    [of "local_var \<lparr>id' = 10, value' = 42.5 :: rat\<rparr>" "()" exact_fpu] below
  obtain mem' where
    ret: "test_struct_by_pointer exact_fpu (Some ()) (local_var \<lparr>id' = 10, value' = 42.5\<rparr>)
            = Inr mem'" and
    ident: "sint (id' (mem' ())) = sint (id' (local_var \<lparr>id' = 10 :: cint, value' = 42.5 :: rat\<rparr> ())) + 1" and
    meas: "value' (mem' ())
            = fmul exact_fpu (value' (local_var \<lparr>id' = 10 :: cint, value' = 42.5 :: rat\<rparr> ()))
                (flit exact_fpu 2.0)"
    by blast
  from ident have "sint (id' (mem' ())) = sint (11 :: cint)"
    by (simp add: local_var_def)
  then have "id' (mem' ()) = 11"
    by (rule signed_word_eqI)
  moreover from meas have "value' (mem' ()) = 85"
    by (simp add: local_var_def exact_fpu_def)
  ultimately have "mem' = local_var \<lparr>id' = 11, value' = 85\<rparr>"
    by (simp add: fun_eq_iff local_var_def)
  with ret below show ?thesis
    by simp
qed

text \<open>
  C3 as stated, for every identifier \<open>i\<close>, fails at \<open>INT_MAX\<close>: the identifier of the
  record becomes \<open>INT_MIN\<close>, not \<open>i + 1\<close>.
\<close>

theorem test_struct_by_pointer_overflow_counterexample:
  "test_struct_by_pointer exact_fpu (Some ()) (local_var \<lparr>id' = 2147483647, value' = 42.5\<rparr>)
     = Inr (local_var \<lparr>id' = - 2147483648, value' = 85\<rparr>)
   \<and> sint (- 2147483648 :: cint) \<noteq> sint (2147483647 :: cint) + 1"
  by (simp add: test_struct_by_pointer_Some local_var_def exact_fpu_def fun_eq_iff)

section \<open>No surface fails\<close>

text \<open>
  C7. No probe surface fails, whatever its arguments: each of the five returns normally
  (the result is never a fault), from every state of the process and of the memories,
  with a null or a present reference. A call of a surface writes no log line and
  records no event. With the null reference, \<open>test_struct_by_pointer\<close> and the output
  parameter of \<open>test_pointer_args\<close> skip the write: the call returns as usual and the
  process is exactly as before.
\<close>

theorem probe_surfaces_return_normally:
  "exec_call fp (Call_test_simple_function a b) s
     = Inr (Ret_int (test_simple_function a b), s)
   \<and> (\<exists>mem'. test_struct_by_pointer fp data mem = Inr mem')
   \<and> (\<exists>s'. exec_call fp (Call_test_struct_by_pointer p) s = Inr (Ret_void, s')
             \<and> events s' = events s \<and> ints s' = ints s)
   \<and> (\<exists>mem'. test_pointer_args input_str out_val imem = Inr (input_str, mem'))
   \<and> (\<exists>s'. exec_call fp (Call_test_pointer_args str q) s = Inr (Ret_str str, s')
             \<and> events s' = events s \<and> datas s' = datas s)
   \<and> exec_call fp (Call_instance_method this m) s
       = Inr (Ret_int (instance_method this m), s)
   \<and> exec_call fp Call_static_method s = Inr (Ret_str (Some static_method), s)
   \<and> test_struct_by_pointer fp None mem = Inr mem
   \<and> test_pointer_args input_str None imem = Inr (input_str, imem)
   \<and> exec_call fp (Call_test_struct_by_pointer None) s = Inr (Ret_void, s)
   \<and> exec_call fp (Call_test_pointer_args str None) s = Inr (Ret_str str, s)"
proof -
  have struct: "\<exists>mem'. test_struct_by_pointer fp data mem = Inr mem'"
    by (cases data) (simp_all add: test_struct_by_pointer_Some test_struct_by_pointer_None)
  have struct_call: "\<exists>s'. exec_call fp (Call_test_struct_by_pointer p) s = Inr (Ret_void, s')
      \<and> events s' = events s \<and> ints s' = ints s"
    by (cases p)
      (simp_all add: exec_call_def test_struct_by_pointer_Some test_struct_by_pointer_None)
  have args: "\<exists>mem'. test_pointer_args input_str out_val imem = Inr (input_str, mem')"
    by (cases out_val) (simp_all add: test_pointer_args_Some test_pointer_args_None)
  have args_call: "\<exists>s'. exec_call fp (Call_test_pointer_args str q) s = Inr (Ret_str str, s')
      \<and> events s' = events s \<and> datas s' = datas s"
    by (cases q) (simp_all add: exec_call_def test_pointer_args_Some test_pointer_args_None)
  have pure: "exec_call fp (Call_test_simple_function a b) s
        = Inr (Ret_int (test_simple_function a b), s)"
    "exec_call fp (Call_instance_method this m) s = Inr (Ret_int (instance_method this m), s)"
    "exec_call fp Call_static_method s = Inr (Ret_str (Some static_method), s)"
    by (simp_all add: exec_call_def)
  have null: "exec_call fp (Call_test_struct_by_pointer None) s = Inr (Ret_void, s)"
    "exec_call fp (Call_test_pointer_args str None) s = Inr (Ret_str str, s)"
    by (simp_all add: exec_call_def test_struct_by_pointer_None test_pointer_args_None)
  show ?thesis
    using struct struct_call args args_call pure null
      test_struct_by_pointer_None [of fp mem] test_pointer_args_None [of input_str imem]
    by blast
qed

section \<open>The global counter\<close>

lemma exec_call_g_test_variable:
  assumes "\<not> passes_g_test_variable c"
  shows "\<exists>r s'. exec_call fp c s = Inr (r, s')
           \<and> ints s' g_test_variable = ints s g_test_variable
           \<and> (\<forall>v. exec_call fp c (s\<lparr>ints := (ints s)(g_test_variable := v)\<rparr>)
                  = Inr (r, s'\<lparr>ints := (ints s')(g_test_variable := v)\<rparr>))"
proof (cases c)
  case (Call_test_struct_by_pointer data)
  then show ?thesis
    by (cases data)
      (simp_all add: exec_call_def test_struct_by_pointer_Some test_struct_by_pointer_None)
next
  case (Call_test_pointer_args i out_val)
  show ?thesis
  proof (cases out_val)
    case None
    with Call_test_pointer_args show ?thesis
      by (simp add: exec_call_def test_pointer_args_None)
  next
    case (Some p)
    with Call_test_pointer_args assms obtain n where "p = caller_int n"
      by (cases p) simp_all
    with Some Call_test_pointer_args show ?thesis
      by (simp add: exec_call_def test_pointer_args_Some fun_upd_twist)
  qed
next
  case Call_run_all_tests
  obtain evs where "run_all_tests fp t = Inr (t\<lparr>events := events t @ evs\<rparr>)" for t
    using run_all_tests_returns [of fp] by blast
  with Call_run_all_tests show ?thesis
    by (simp add: exec_call_def)
qed (simp_all add: exec_call_def)

text \<open>
  C9, as amended. No probe surface and no step of the driver routine names the global
  counter. After any sequence of calls of the five surfaces and of the driver, none of
  which passes the counter's own address as the output parameter of \<open>test_pointer_args\<close>,
  every call has returned and the counter holds the value it had before; and the same
  calls from a process that differs only in the value of the counter return the same
  results and end in the same state, but for that value: the counter is never read.
\<close>

theorem g_test_variable_frame:
  "list_all (\<lambda>c. \<not> passes_g_test_variable c) cs \<Longrightarrow>
   \<exists>rs s'. exec_calls fp cs s = Inr (rs, s')
           \<and> ints s' g_test_variable = ints s g_test_variable
           \<and> (\<forall>v. exec_calls fp cs (s\<lparr>ints := (ints s)(g_test_variable := v)\<rparr>)
                  = Inr (rs, s'\<lparr>ints := (ints s')(g_test_variable := v)\<rparr>))"
proof (induction cs arbitrary: s)
  case Nil
  then show ?case by simp
next
  case (Cons c cs)
  from Cons.prems have c: "\<not> passes_g_test_variable c"
    by simp
  from exec_call_g_test_variable [OF c, of fp s] obtain r s1 where
    1: "exec_call fp c s = Inr (r, s1)" and
    2: "ints s1 g_test_variable = ints s g_test_variable" and
    3: "\<And>v. exec_call fp c (s\<lparr>ints := (ints s)(g_test_variable := v)\<rparr>)
                  = Inr (r, s1\<lparr>ints := (ints s1)(g_test_variable := v)\<rparr>)"
    by blast
  from Cons.prems have "list_all (\<lambda>c. \<not> passes_g_test_variable c) cs"
    by simp
  from Cons.IH [OF this, of s1] obtain rs s2 where
    4: "exec_calls fp cs s1 = Inr (rs, s2)" and
    5: "ints s2 g_test_variable = ints s1 g_test_variable" and
    6: "\<And>v. exec_calls fp cs (s1\<lparr>ints := (ints s1)(g_test_variable := v)\<rparr>)
                  = Inr (rs, s2\<lparr>ints := (ints s2)(g_test_variable := v)\<rparr>)"
    by blast
  have 7: "exec_calls fp (c # cs) s = Inr (r # rs, s2)"
    using 1 4 by simp
  have 8: "exec_calls fp (c # cs) (s\<lparr>ints := (ints s)(g_test_variable := v)\<rparr>)
             = Inr (r # rs, s2\<lparr>ints := (ints s2)(g_test_variable := v)\<rparr>)" for v
    by (simp only: exec_calls.simps 3 6 sum.case prod.case)
  have 9: "ints s2 g_test_variable = ints s g_test_variable"
    using 2 5 by simp
  show ?case
    using 7 8 9 by blast
qed

text \<open>
  From the process as loaded, one call of each surface and of the driver, with
  references to the caller's own objects: the counter still holds 100.
\<close>

theorem g_test_variable_frame_witness:
  "list_all (\<lambda>c. \<not> passes_g_test_variable c)
     [Call_test_simple_function 5 7, Call_test_struct_by_pointer (Some 0),
      Call_test_pointer_args (Some ''Hello'') (Some (caller_int 0)),
      Call_test_pointer_args None None,
      Call_instance_method \<lparr>m_value = 42\<rparr> 10, Call_static_method, Call_run_all_tests]
   \<and> g_test_variable_after exact_fpu
     [Call_test_simple_function 5 7, Call_test_struct_by_pointer (Some 0),
      Call_test_pointer_args (Some ''Hello'') (Some (caller_int 0)),
      Call_test_pointer_args None None,
      Call_instance_method \<lparr>m_value = 42\<rparr> 10, Call_static_method, Call_run_all_tests]
     (process_at_load exact_fpu) = Some 100"
proof -
  let ?cs = "[Call_test_simple_function 5 7, Call_test_struct_by_pointer (Some 0),
      Call_test_pointer_args (Some ''Hello'') (Some (caller_int 0)),
      Call_test_pointer_args None None,
      Call_instance_method \<lparr>m_value = 42\<rparr> 10, Call_static_method, Call_run_all_tests]"
  have safe: "list_all (\<lambda>c. \<not> passes_g_test_variable c) ?cs"
    by simp
  from g_test_variable_frame [OF safe, of exact_fpu "process_at_load exact_fpu"]
  obtain rs s' where
    "exec_calls exact_fpu ?cs (process_at_load exact_fpu) = Inr (rs, s')" and
    "ints s' g_test_variable = ints (process_at_load exact_fpu) g_test_variable"
    by blast
  then have "g_test_variable_after exact_fpu ?cs (process_at_load exact_fpu)
      = Some (ints (process_at_load exact_fpu) g_test_variable)"
    by (simp add: g_test_variable_after_def)
  then have "g_test_variable_after exact_fpu ?cs (process_at_load exact_fpu) = Some 100"
    by (simp add: process_at_load_def g_test_variable_init_def)
  with safe show ?thesis
    by blast
qed

text \<open>
  C9 as stated, after any sequence of calls, fails when a caller passes the address of
  the counter as the output parameter: from the process as loaded, where the counter
  holds 100, one such call of \<open>test_pointer_args\<close> leaves 500 in it.
\<close>

theorem g_test_variable_aliased_counterexample:
  "ints (process_at_load exact_fpu) g_test_variable = 100
   \<and> g_test_variable_after exact_fpu
       [Call_test_pointer_args (Some ''Hello'') (Some g_test_variable)]
       (process_at_load exact_fpu) = Some 500"
  by (simp add: g_test_variable_after_def exec_call_def test_pointer_args_Some
      process_at_load_def g_test_variable_init_def)

section \<open>The driver routine\<close>

text \<open>
  C1. From every state of the process, the driver routine returns, and what it adds to
  the events of the process is exactly this sequence. Each of the five probe surfaces
  is called exactly once, in the order arithmetic, record mutation,
  string and output parameter, instance method, static method. Each call stands between
  the log line with its expected value and the log line with the actual one, and the
  expected values are the literals 12, (11, 85.0), 500, 420 and
  \<^verbatim>\<open>Original static string\<close>, in that order. The actual values are 12, 11 and the product
  of the doubles 42.5 and 2.0, 500, 420 and the constant string.
\<close>

theorem run_all_tests_trace:
  \<open>(\<exists>s'. run_all_tests fp s = Inr s'
      \<and> invocations s' = invocations s @
          [Test_simple_function, Test_struct_by_pointer, Test_pointer_args,
           Instance_method, Static_method])
   \<and> run_all_tests fp s = Inr (s\<lparr>events := events s @
     [Log_print ANDROID_LOG_INFO ''NativeTestLib'' ''--- Running Native Tests ---'' [],
      Log_print ANDROID_LOG_INFO ''NativeTestLib''
        ''[Test 1] Calling test_simple_function(5, 7). Expected result: 12'' [],
      Invoke Test_simple_function,
      Log_print ANDROID_LOG_INFO ''NativeTestLib''
        ''[Test 1] Actual result: %d. (Hook should change this to 35)'' [Int_arg 12],
      Log_print ANDROID_LOG_INFO ''NativeTestLib''
        ''[Test 2] Calling test_struct_by_pointer. Initial values: id=10, value=42.5'' [],
      Log_print ANDROID_LOG_INFO ''NativeTestLib''
        ''[Test 2] Expected values after call: id=11, value=85.0'' [],
      Invoke Test_struct_by_pointer,
      Log_print ANDROID_LOG_INFO ''NativeTestLib''
        ''[Test 2] Actual values after call: id=%d, value=%f. (Hook should change these to -20, -3.14)''
        [Int_arg 11, Double_arg (fmul fp (flit fp 42.5) (flit fp 2.0))],
      Log_print ANDROID_LOG_INFO ''NativeTestLib''
        ''[Test 3] Calling test_pointer_args. Expected out_val: 500'' [],
      Invoke Test_pointer_args,
      Log_print ANDROID_LOG_INFO ''NativeTestLib''
        ''[Test 3] Actual out_val: %d. (Hook should change this to 999)'' [Int_arg 500],
      Log_print ANDROID_LOG_INFO ''NativeTestLib''
        ''TestClass instance created with m_value = %d'' [Int_arg 42],
      Log_print ANDROID_LOG_INFO ''NativeTestLib''
        ''[Test 4] Calling instance.instance_method(10). Expected result: 420'' [],
      Invoke Instance_method,
      Log_print ANDROID_LOG_INFO ''NativeTestLib''
        ''[Test 4] Actual result: %d. (Hook should change this to 1337)'' [Int_arg 420],
      Log_print ANDROID_LOG_INFO ''NativeTestLib''
        (''[Test 5] Calling TestClass::static_method(). Expected result: \'Original static string''
           @ [CHR 0x27]) [],
      Invoke Static_method,
      Log_print ANDROID_LOG_INFO ''NativeTestLib''
        ''[Test 5] Actual result: \'%s\'. (Hook should change this)''
        [Str_arg ''Original static string''],
      Log_print ANDROID_LOG_INFO ''NativeTestLib'' ''--- Native Tests Finished ---'' []]\<rparr>)\<close>
  by (simp add: run_all_tests_def LOG_I_def LOG_TAG_def invoke_def invocations_def
      test_struct_by_pointer_Some test_pointer_args_Some TestClass_ctor_def local_var_def
      test_simple_function_def instance_method_def static_method_def Let_def)

end
